theory Spec2Isabelle
  imports Main
begin

section \<open>The generated AvailableOperations client (availableoperations.go)\<close>

subsection \<open>HTTP values, errors and the result type\<close>

text \<open>
  A request is the method and the URL the preparers fill in; a response is the status
  code and the body the responder reads, with a flag for the body having been closed.
  A nil pointer of the Go code is \<open>None\<close>.
\<close>

record http_request =
  Method :: string
  URL :: string

record http_response =
  StatusCode :: int
  Body :: string
  BodyClosed :: bool

text \<open>
  The Go \<open>error\<close> values the client can produce. A response whose status code
  \<open>azure.WithErrorUnlessStatusCode\<close> refuses gives one of two errors: the
  \<open>azure.RequestError\<close> that the decorator builds when it can decode the body of the
  response (\<open>RequestError\<close>, with what was decoded), or the plain error it returns
  when the body cannot be decoded (\<open>ErrorResponseNotParsed\<close>, with its message).
  \<open>UnmarshalError\<close> is the error of \<open>autorest.ByUnmarshallingJSON\<close>.
  \<open>DetailedError\<close> is what \<open>autorest.NewErrorWithError\<close> builds: the original
  error, the package type, the method, the status code and the message.
\<close>

datatype error =
    RequestError string
  | ErrorResponseNotParsed string
  | UnmarshalError string
  | InspectorError string
  | PrepareError string
  | SendError string
  | DetailedError error string string int string

definition UndefinedStatusCode :: int where
  "UndefinedStatusCode = 0"

text \<open>
  \<open>autorest.NewErrorWithError\<close> returns an original error that is a
  \<open>DetailedError\<close> already as it is; any other error is wrapped, with the status
  code of the response, or \<open>UndefinedStatusCode\<close> when the response is nil.
\<close>

definition NewErrorWithError ::
  "error \<Rightarrow> string \<Rightarrow> string \<Rightarrow> http_response option \<Rightarrow> string \<Rightarrow> error" where
  "NewErrorWithError original packageType method_name resp message =
     (case original of
        DetailedError inner_original inner_package inner_method inner_status inner_message \<Rightarrow>
          original
      | _ \<Rightarrow>
          DetailedError original packageType method_name
            (case resp of None \<Rightarrow> UndefinedStatusCode | Some r \<Rightarrow> StatusCode r) message)"

text \<open>
  A request failure is an error by which the status check refuses a response: either of
  the two errors of \<open>azure.WithErrorUnlessStatusCode\<close>.
\<close>

definition is_request_failure :: "error option \<Rightarrow> bool" where
  "is_request_failure e =
     (case e of
        Some (RequestError detail) \<Rightarrow> True
      | Some (ErrorResponseNotParsed message) \<Rightarrow> True
      | _ \<Rightarrow> False)"

text \<open>
  Modelled from the spec: the struct \<open>AvailableOperationsListResponse\<close> is declared in
  the package's models.go, which is not among the source files. The embedded
  \<open>autorest.Response\<close> is the field that \<open>ListResponder\<close> and \<open>listNextResults\<close>
  assign; \<open>NextLink\<close> and \<open>Value\<close> are the continuation link and the page of
  operations that the JSON body carries (spec section 6: pagination follows a
  nextLink-style continuation token embedded in the response body). The zero value has
  every pointer nil.
\<close>

record 'op AvailableOperationsListResponse =
  Response :: "http_response option"
  NextLink :: "string option"
  Value :: "'op list option"

definition zero_result :: "'op AvailableOperationsListResponse" where
  "zero_result = \<lparr>Response = None, NextLink = None, Value = None\<rparr>"

subsection \<open>Responders and their decorators (go-autorest)\<close>

text \<open>
  \<open>autorest.Respond(resp, d1, ..., dn)\<close> returns nil for a nil response; otherwise it
  wraps the responder that does nothing in the decorators, in order, the last one
  outermost, and runs the result on the response. Every decorator used here calls the
  responder it wraps first, so the decorators take effect in the order they are listed.
  A responder works on the response and on the value that \<open>ByUnmarshallingJSON\<close>
  decodes into (the \<open>&result\<close> of the caller); both are passed through explicitly.
\<close>

record 'r respond_state =
  rs_resp :: http_response
  rs_target :: 'r

type_synonym 'r responder = "'r respond_state \<Rightarrow> error option \<times> 'r respond_state"

type_synonym 'r respond_decorator = "'r responder \<Rightarrow> 'r responder"

definition null_responder :: "'r responder" where
  "null_responder s = (None, s)"

definition ByIgnoring :: "'r respond_decorator" where
  "ByIgnoring r = (\<lambda>s. r s)"

text \<open>
  \<open>azure.WithErrorUnlessStatusCode(codes...)\<close>: when the wrapped responder reports no
  error and the status code of the response is not one of \<open>codes\<close>, the decorator
  decodes the body of the response as a service error and returns an error in every
  case: a plain error when the body cannot be decoded, an \<open>azure.RequestError\<close>
  otherwise. The decoding (of JSON or XML, into the library's error type, which also
  takes its status code from the body when the body names one) is the parameter
  \<open>decode_error\<close>: for a response it gives the message of the plain error (\<open>Inl\<close>)
  or the content of the request error (\<open>Inr\<close>).
\<close>

definition WithErrorUnlessStatusCode ::
  "(http_response \<Rightarrow> string + string) \<Rightarrow> int list \<Rightarrow> 'r respond_decorator" where
  "WithErrorUnlessStatusCode decode_error codes r = (\<lambda>s.
     case r s of
       (Some e, s') \<Rightarrow> (Some e, s')
     | (None, s') \<Rightarrow>
         if StatusCode (rs_resp s') \<in> set codes then (None, s')
         else (case decode_error (rs_resp s') of
                 Inl message \<Rightarrow> (Some (ErrorResponseNotParsed message), s')
               | Inr detail \<Rightarrow> (Some (RequestError detail), s')))"

text \<open>
  \<open>autorest.ByUnmarshallingJSON(v)\<close>: when the wrapped responder reports no error, the
  body is decoded into \<open>v\<close>. The decoder itself (reading the body and
  \<open>json.Unmarshal\<close>) is the parameter \<open>unmarshal\<close>: from the body and the value
  decoded into, it gives the failure message, if any, and the value as the decoder
  leaves it.
\<close>

definition ByUnmarshallingJSON ::
  "(string \<Rightarrow> 'r \<Rightarrow> string option \<times> 'r) \<Rightarrow> 'r respond_decorator" where
  "ByUnmarshallingJSON unmarshal r = (\<lambda>s.
     case r s of
       (Some e, s') \<Rightarrow> (Some e, s')
     | (None, s') \<Rightarrow>
         (case unmarshal (Body (rs_resp s')) (rs_target s') of
            (failure, v) \<Rightarrow> (map_option UnmarshalError failure, s'\<lparr>rs_target := v\<rparr>)))"

text \<open>\<open>autorest.ByClosing()\<close> closes the body whatever the wrapped responder reports.\<close>

definition ByClosing :: "'r respond_decorator" where
  "ByClosing r = (\<lambda>s.
     case r s of (e, s') \<Rightarrow> (e, s'\<lparr>rs_resp := (rs_resp s')\<lparr>BodyClosed := True\<rparr>\<rparr>))"

definition DecorateResponder :: "'r responder \<Rightarrow> 'r respond_decorator list \<Rightarrow> 'r responder" where
  "DecorateResponder r decorators = foldl (\<lambda>acc decorate. decorate acc) r decorators"

text \<open>
  \<open>Respond\<close> gives the error, the decoded value and the response as the decorators
  leave it.
\<close>

definition Respond ::
  "http_response option \<Rightarrow> 'r \<Rightarrow> 'r respond_decorator list
     \<Rightarrow> error option \<times> 'r \<times> http_response option" where
  "Respond resp target decorators =
     (case resp of
        None \<Rightarrow> (None, target, None)
      | Some r \<Rightarrow>
          (case DecorateResponder null_responder decorators \<lparr>rs_resp = r, rs_target = target\<rparr> of
             (e, s') \<Rightarrow> (e, rs_target s', Some (rs_resp s'))))"

subsection \<open>The client\<close>

text \<open>
  Of the embedded \<open>autorest.Client\<close> the responder uses the response inspector only:
  \<open>client.ByInspecting()\<close> is the client's \<open>ResponseInspector\<close>, or \<open>ByIgnoring()\<close>
  when that field is nil.
\<close>

record 'r AvailableOperationsClient =
  BaseURI :: string
  ResponseInspector :: "'r respond_decorator option"

definition ByInspecting :: "'r AvailableOperationsClient \<Rightarrow> 'r respond_decorator" where
  "ByInspecting client =
     (case ResponseInspector client of None \<Rightarrow> ByIgnoring | Some inspector \<Rightarrow> inspector)"

definition StatusOK :: int where
  "StatusOK = 200"

text \<open>
  \<open>ListResponder\<close> (lines 101-110): the Go function returns \<open>(result, err)\<close>; the pair
  here is in that order. The two decoders of the library are parameters.
\<close>

definition ListResponder ::
  "'op AvailableOperationsListResponse AvailableOperationsClient
     \<Rightarrow> (http_response \<Rightarrow> string + string)
     \<Rightarrow> (string \<Rightarrow> 'op AvailableOperationsListResponse
           \<Rightarrow> string option \<times> 'op AvailableOperationsListResponse)
     \<Rightarrow> http_response option
     \<Rightarrow> 'op AvailableOperationsListResponse \<times> error option" where
  "ListResponder client decode_error unmarshal resp =
     (case Respond resp zero_result
             [ByInspecting client,
              WithErrorUnlessStatusCode decode_error [StatusOK],
              ByUnmarshallingJSON unmarshal,
              ByClosing] of
        (err, result, resp') \<Rightarrow> (result\<lparr>Response := resp'\<rparr>, err))"

text \<open>
  \<open>ListSender\<close> (lines 94-97) hands the request to the transport. The transport, with
  its retry policy, is outside the repository: it is the parameter \<open>transport\<close>,
  which answers a request given the requests handed over before. The list of requests
  handed over so far is the state that \<open>ListSender\<close> extends.
\<close>

type_synonym transport =
  "http_request list \<Rightarrow> http_request \<Rightarrow> http_response option \<times> error option"

definition ListSender ::
  "transport \<Rightarrow> http_request \<Rightarrow> http_request list
     \<Rightarrow> (http_response option \<times> error option) \<times> http_request list" where
  "ListSender send req wire = (send wire req, wire @ [req])"

text \<open>
  \<open>listNextResults\<close> (lines 113-131). The preparer of the last page,
  \<open>availableOperationsListResponsePreparer\<close>, is a method of models.go and a
  parameter here: it gives the request for the next page (nil when there is none) and
  an error. The context argument only carries cancellation and is left out.
\<close>

definition listNextResults ::
  "'op AvailableOperationsListResponse AvailableOperationsClient
     \<Rightarrow> (http_response \<Rightarrow> string + string)
     \<Rightarrow> (string \<Rightarrow> 'op AvailableOperationsListResponse
           \<Rightarrow> string option \<times> 'op AvailableOperationsListResponse)
     \<Rightarrow> ('op AvailableOperationsListResponse \<Rightarrow> http_request option \<times> error option)
     \<Rightarrow> transport
     \<Rightarrow> 'op AvailableOperationsListResponse
     \<Rightarrow> http_request list
     \<Rightarrow> ('op AvailableOperationsListResponse \<times> error option) \<times> http_request list" where
  "listNextResults client decode_error unmarshal preparer send lastResults wire =
     (case preparer lastResults of
        (req, Some err) \<Rightarrow>
          ((zero_result,
            Some (NewErrorWithError err ''vmwarecloudsimple.AvailableOperationsClient''
                    ''listNextResults'' None ''Failure preparing next results request'')),
           wire)
      | (None, None) \<Rightarrow> ((zero_result, None), wire)
      | (Some req, None) \<Rightarrow>
          (case ListSender send req wire of
             ((resp, Some err), wire') \<Rightarrow>
               ((zero_result\<lparr>Response := resp\<rparr>,
                 Some (NewErrorWithError err ''vmwarecloudsimple.AvailableOperationsClient''
                         ''listNextResults'' resp ''Failure sending next results request'')),
                wire')
           | ((resp, None), wire') \<Rightarrow>
               (case ListResponder client decode_error unmarshal resp of
                  (result, Some err) \<Rightarrow>
                    ((result,
                      Some (NewErrorWithError err ''vmwarecloudsimple.AvailableOperationsClient''
                              ''listNextResults'' resp
                              ''Failure responding to next results request'')),
                     wire')
                | (result, None) \<Rightarrow> ((result, None), wire'))))"

text \<open>
  When the inspector of the client reports no error for a response and leaves the
  response and the value decoded into as they are, it \<open>lets_through\<close> the response. A
  client with no inspector lets every response through.
\<close>

definition lets_through ::
  "'op AvailableOperationsListResponse AvailableOperationsClient \<Rightarrow> http_response \<Rightarrow> bool" where
  "lets_through client r =
     (ByInspecting client null_responder \<lparr>rs_resp = r, rs_target = zero_result\<rparr>
        = (None, \<lparr>rs_resp = r, rs_target = zero_result\<rparr>))"

section \<open>The credential chain (azidentity)\<close>

subsection \<open>Credentials\<close>

text \<open>
  Modelled from the spec: the credential types of azidentity are not among the source
  files; the only source text on them is the library's README (part_000). A credential
  is its \<open>GetToken\<close>: given the scopes it produces a token (a bearer string and an
  expiry timestamp) or fails with one of the two kinds of error of spec section 4.1,
  each carrying its reason.
\<close>

datatype cred_error = CredentialUnavailable string | AuthenticationFailed string

record access_token =
  Token :: string
  ExpiresOn :: int

type_synonym credential = "string set \<Rightarrow> cred_error + access_token"

fun failure_reason :: "cred_error + access_token \<Rightarrow> string" where
  "failure_reason (Inl (CredentialUnavailable reason)) = reason"
| "failure_reason (Inl (AuthenticationFailed reason)) = reason"
| "failure_reason (Inr tok) = []"

subsection \<open>ChainedTokenCredential\<close>

text \<open>
  Modelled from the spec: \<open>GetToken\<close> of \<open>ChainedTokenCredential\<close> is not among the
  source files. Spec section 4.2 gives the algorithm: starting at index 0, call
  \<open>GetToken\<close> on the credential at \<open>index\<close>; a token stops the chain and is returned;
  a failure with \<open>CredentialUnavailable\<close> advances to \<open>index + 1\<close>, and so does, in
  the words of that section, a failure with \<open>AuthenticationFailed\<close>; when \<open>index\<close>
  reaches the end of the list the chain is \<open>Exhausted\<close> with the reasons of its
  credentials in order. On the failure with \<open>AuthenticationFailed\<close> the sources do
  not agree with that section: the library's README (part_000, lines 104-106) has the
  chain try each credential in turn "until one provides a token or fails to
  authenticate due to an error", and section 4.1 says that chaining only continues past
  \<open>CredentialUnavailable\<close>. The property proved of the chain below is about chains
  that reach a token through credentials that are unavailable, and holds either way.

  The function also returns the indices of the credentials it has invoked, in order.
\<close>

datatype chain_outcome =
    Succeeded access_token
  | Exhausted "string list"

function try_from ::
  "credential list \<Rightarrow> string set \<Rightarrow> nat \<Rightarrow> string list \<Rightarrow> nat list
     \<Rightarrow> chain_outcome \<times> nat list" where
  "try_from sources scopes index errors invoked =
     (if index < length sources then
        (case (sources ! index) scopes of
           Inr tok \<Rightarrow> (Succeeded tok, invoked @ [index])
         | Inl (CredentialUnavailable reason) \<Rightarrow>
             try_from sources scopes (Suc index) (errors @ [reason]) (invoked @ [index])
         | Inl (AuthenticationFailed reason) \<Rightarrow>
             try_from sources scopes (Suc index) (errors @ [reason]) (invoked @ [index]))
      else (Exhausted errors, invoked))"
  by pat_completeness auto
termination
  by (relation "measure (\<lambda>(sources, scopes, index, errors, invoked). length sources - index)")
    auto

declare try_from.simps [simp del]

text \<open>
  An empty chain fails at once with the "no credentials configured" error (spec
  section 4.2, edge case).
\<close>

definition ChainedTokenCredential_GetToken ::
  "credential list \<Rightarrow> string set \<Rightarrow> chain_outcome \<times> nat list" where
  "ChainedTokenCredential_GetToken sources scopes =
     (if sources = [] then (Exhausted [''no credentials configured''], [])
      else try_from sources scopes 0 [] [])"

text \<open>
  The aggregated message of a failed chain concatenates the reasons in chain order.
\<close>

fun error_message :: "chain_outcome \<Rightarrow> string" where
  "error_message (Succeeded tok) = []"
| "error_message (Exhausted errors) = concat errors"

text \<open>Every credential before position \<open>k\<close> returns \<open>CredentialUnavailable\<close>.\<close>

definition unavailable_before :: "credential list \<Rightarrow> string set \<Rightarrow> nat \<Rightarrow> bool" where
  "unavailable_before sources scopes k =
     (\<forall>j<k. \<exists>reason. (sources ! j) scopes = Inl (CredentialUnavailable reason))"

section \<open>Concrete inputs\<close>

text \<open>A client with no response inspector, at the default base URI.\<close>

definition plain_client :: "string AvailableOperationsListResponse AvailableOperationsClient" where
  "plain_client = \<lparr>BaseURI = ''https://management.azure.com'', ResponseInspector = None\<rparr>"

text \<open>
  A decoder that takes the empty JSON object (which sets no field) and refuses any other
  body.
\<close>

definition decode_empty_object ::
  "string \<Rightarrow> string AvailableOperationsListResponse
     \<Rightarrow> string option \<times> string AvailableOperationsListResponse" where
  "decode_empty_object body v =
     (if body = ''{}'' then (None, v) else (Some ''invalid character'', v))"

text \<open>
  A decoder of error bodies in the manner of the library's: the empty JSON object gives
  a request error with an unknown service error, and any other body is taken here as
  one that cannot be decoded.
\<close>

definition decode_error_object :: "http_response \<Rightarrow> string + string" where
  "decode_error_object r =
     (if Body r = ''{}'' then Inr ''Unknown: Unknown service error''
      else Inl ''error response cannot be parsed'')"

definition ok_response :: http_response where
  "ok_response = \<lparr>StatusCode = 200, Body = ''{}'', BodyClosed = False\<rparr>"

definition no_content_response :: http_response where
  "no_content_response = \<lparr>StatusCode = 204, Body = [], BodyClosed = False\<rparr>"

definition not_found_response :: http_response where
  "not_found_response = \<lparr>StatusCode = 404, Body = ''{}'', BodyClosed = False\<rparr>"

definition server_error_response :: http_response where
  "server_error_response = \<lparr>StatusCode = 500, Body = ''oops'', BodyClosed = False\<rparr>"

text \<open>
  A preparer in the manner of the generated ones: no request when the last page has no
  next link, a GET of the link otherwise.
\<close>

definition next_link_preparer ::
  "string AvailableOperationsListResponse \<Rightarrow> http_request option \<times> error option" where
  "next_link_preparer lastResults =
     (case NextLink lastResults of
        None \<Rightarrow> (None, None)
      | Some link \<Rightarrow> (Some \<lparr>Method = ''GET'', URL = link\<rparr>, None))"

definition last_page :: "string AvailableOperationsListResponse" where
  "last_page =
     \<lparr>Response = Some (ok_response\<lparr>BodyClosed := True\<rparr>), NextLink = None,
      Value = Some [''Microsoft.VMwareCloudSimple/operations/read'']\<rparr>"

definition answering_ok :: transport where
  "answering_ok wire req = (Some ok_response, None)"

text \<open>Three credentials: one not configured, one whose secret is refused, one that works.\<close>

definition sample_token :: access_token where
  "sample_token = \<lparr>Token = ''eyJ0'', ExpiresOn = 3600\<rparr>"

definition unconfigured_credential :: credential where
  "unconfigured_credential scopes = Inl (CredentialUnavailable ''environment variables not set'')"

definition refused_credential :: credential where
  "refused_credential scopes = Inl (AuthenticationFailed ''invalid client secret'')"

definition working_credential :: credential where
  "working_credential scopes = Inr sample_token"

definition unconfigured_then_working :: "credential list" where
  "unconfigured_then_working = [unconfigured_credential, working_credential, refused_credential]"

definition management_scope :: "string set" where
  "management_scope = {''https://management.azure.com/.default''}"

section \<open>Properties of the client\<close>

lemma no_inspector_lets_through:
  "ResponseInspector client = None \<Longrightarrow> lets_through client r"
  by (simp add: lets_through_def ByInspecting_def ByIgnoring_def null_responder_def)

lemma ListResponder_Some:
  assumes "lets_through client r"
  shows "ListResponder client decode_error unmarshal (Some r) =
     (if StatusCode r = StatusOK
      then (case unmarshal (Body r) zero_result of
              (failure, v) \<Rightarrow>
                (v\<lparr>Response := Some (r\<lparr>BodyClosed := True\<rparr>)\<rparr>,
                 map_option UnmarshalError failure))
      else (zero_result\<lparr>Response := Some (r\<lparr>BodyClosed := True\<rparr>)\<rparr>,
            Some (case decode_error r of
                    Inl message \<Rightarrow> ErrorResponseNotParsed message
                  | Inr detail \<Rightarrow> RequestError detail)))"
  using assms
  by (simp add: lets_through_def ListResponder_def Respond_def DecorateResponder_def
      WithErrorUnlessStatusCode_def ByUnmarshallingJSON_def ByClosing_def
      split: prod.splits option.splits sum.splits)

lemma status_check_error_is_request_failure:
  "is_request_failure
     (Some (case d of Inl message \<Rightarrow> ErrorResponseNotParsed message
                    | Inr detail \<Rightarrow> RequestError detail))"
  by (cases d) (simp_all add: is_request_failure_def)

lemma unmarshal_error_is_no_request_failure:
  "\<not> is_request_failure (map_option UnmarshalError failure)"
  by (cases failure) (simp_all add: is_request_failure_def)

text \<open>
  Claim C6, as stated, fails: a response with status 204 is in the 2xx range, and
  \<open>ListResponder\<close> does not accept it: it returns an error, a request failure, and
  the result holds nothing decoded from the body.
\<close>

theorem ListResponder_2xx_counterexample:
  "200 \<le> StatusCode no_content_response \<and> StatusCode no_content_response \<le> 299
   \<and> snd (ListResponder plain_client decode_error_object decode_empty_object
             (Some no_content_response)) \<noteq> None
   \<and> is_request_failure
        (snd (ListResponder plain_client decode_error_object decode_empty_object
                (Some no_content_response)))
   \<and> fst (ListResponder plain_client decode_error_object decode_empty_object
             (Some no_content_response))
       = zero_result\<lparr>Response := Some (no_content_response\<lparr>BodyClosed := True\<rparr>)\<rparr>"
proof -
  have "lets_through plain_client no_content_response"
    by (rule no_inspector_lets_through) (simp add: plain_client_def)
  then show ?thesis
    by (simp add: ListResponder_Some is_request_failure_def no_content_response_def
        StatusOK_def decode_error_object_def)
qed

text \<open>
  Claim C6, amended: for a client whose inspector lets the response through (the
  client with no inspector does), \<open>ListResponder\<close> turns a response into a request
  failure (the request error of the status check, or its plain error when the body of
  the refused response cannot be decoded) if and only if its status code is not 200
  (\<open>http.StatusOK\<close>). A response with status 200 is accepted: its body is decoded
  into the result, and the result carries the response, closed. A response with any
  other status is refused with the error of the status check, and its body is not
  decoded into the result.
\<close>

theorem ListResponder_failure_iff_not_StatusOK:
  assumes "lets_through client r"
  shows "(is_request_failure (snd (ListResponder client decode_error unmarshal (Some r)))
            \<longleftrightarrow> StatusCode r \<noteq> 200)
       \<and> (StatusCode r = 200 \<longrightarrow>
            ListResponder client decode_error unmarshal (Some r) =
              (case unmarshal (Body r) zero_result of
                 (failure, v) \<Rightarrow>
                   (v\<lparr>Response := Some (r\<lparr>BodyClosed := True\<rparr>)\<rparr>,
                    map_option UnmarshalError failure)))
       \<and> (StatusCode r \<noteq> 200 \<longrightarrow>
            ListResponder client decode_error unmarshal (Some r) =
              (zero_result\<lparr>Response := Some (r\<lparr>BodyClosed := True\<rparr>)\<rparr>,
               Some (case decode_error r of
                       Inl message \<Rightarrow> ErrorResponseNotParsed message
                     | Inr detail \<Rightarrow> RequestError detail)))"
proof (cases "StatusCode r = 200")
  case True
  then show ?thesis
    using assms
    by (simp add: ListResponder_Some StatusOK_def unmarshal_error_is_no_request_failure
        split: prod.splits)
next
  case False
  then show ?thesis
    using assms
    by (simp add: ListResponder_Some StatusOK_def status_check_error_is_request_failure)
qed

theorem ListResponder_failure_iff_not_StatusOK_witness:
  "lets_through plain_client ok_response
   \<and> lets_through plain_client not_found_response
   \<and> lets_through plain_client server_error_response
   \<and> ListResponder plain_client decode_error_object decode_empty_object (Some ok_response) =
       (zero_result\<lparr>Response := Some (ok_response\<lparr>BodyClosed := True\<rparr>)\<rparr>, None)
   \<and> ListResponder plain_client decode_error_object decode_empty_object
        (Some not_found_response) =
       (zero_result\<lparr>Response := Some (not_found_response\<lparr>BodyClosed := True\<rparr>)\<rparr>,
        Some (RequestError ''Unknown: Unknown service error''))
   \<and> ListResponder plain_client decode_error_object decode_empty_object
        (Some server_error_response) =
       (zero_result\<lparr>Response := Some (server_error_response\<lparr>BodyClosed := True\<rparr>)\<rparr>,
        Some (ErrorResponseNotParsed ''error response cannot be parsed''))"
proof -
  have ok: "lets_through plain_client ok_response"
    by (rule no_inspector_lets_through) (simp add: plain_client_def)
  have nf: "lets_through plain_client not_found_response"
    by (rule no_inspector_lets_through) (simp add: plain_client_def)
  have se: "lets_through plain_client server_error_response"
    by (rule no_inspector_lets_through) (simp add: plain_client_def)
  show ?thesis
    using ok nf se
      ListResponder_failure_iff_not_StatusOK
        [OF ok, of decode_error_object decode_empty_object]
      ListResponder_failure_iff_not_StatusOK
        [OF nf, of decode_error_object decode_empty_object]
      ListResponder_failure_iff_not_StatusOK
        [OF se, of decode_error_object decode_empty_object]
    by (simp add: ok_response_def not_found_response_def server_error_response_def
        decode_empty_object_def decode_error_object_def)
qed

text \<open>
  Claim C10: when the preparer of the last page gives no request and no error,
  \<open>listNextResults\<close> returns the zero-value result and no error, and hands no request
  to the sender: the requests sent so far are unchanged.
\<close>

theorem listNextResults_no_request:
  assumes "preparer lastResults = (None, None)"
  shows "listNextResults client decode_error unmarshal preparer send lastResults wire
           = ((zero_result, None), wire)"
  using assms by (simp add: listNextResults_def)

theorem listNextResults_no_request_witness:
  "next_link_preparer last_page = (None, None)
   \<and> listNextResults plain_client decode_error_object decode_empty_object
        next_link_preparer answering_ok last_page [] = ((zero_result, None), [])"
proof -
  have p: "next_link_preparer last_page = (None, None)"
    by (simp add: next_link_preparer_def last_page_def)
  show ?thesis
    using p listNextResults_no_request
              [of next_link_preparer last_page plain_client decode_error_object
                  decode_empty_object answering_ok "[]"]
    by simp
qed

section \<open>Properties of the credential chain\<close>

lemma try_from_skip:
  assumes "i \<le> k" and "k \<le> length sources"
    and "\<forall>j. i \<le> j \<and> j < k \<longrightarrow>
           (\<exists>reason. (sources ! j) scopes = Inl (CredentialUnavailable reason))"
  shows "try_from sources scopes i errors invoked =
         try_from sources scopes k
           (errors @ map (\<lambda>j. failure_reason ((sources ! j) scopes)) [i..<k])
           (invoked @ [i..<k])"
  using assms
proof (induction "k - i" arbitrary: i errors invoked)
  case 0
  then show ?case by simp
next
  case (Suc d)
  then have lt: "i < k" and len: "i < length sources" by auto
  from Suc.prems lt obtain reason
    where r: "(sources ! i) scopes = Inl (CredentialUnavailable reason)"
    by blast
  have step: "try_from sources scopes i errors invoked =
              try_from sources scopes (Suc i) (errors @ [reason]) (invoked @ [i])"
    using len r by (subst try_from.simps) simp
  have d: "d = k - Suc i" using Suc.hyps(2) by simp
  have rest: "try_from sources scopes (Suc i) (errors @ [reason]) (invoked @ [i]) =
        try_from sources scopes k
          ((errors @ [reason]) @ map (\<lambda>j. failure_reason ((sources ! j) scopes)) [Suc i..<k])
          ((invoked @ [i]) @ [Suc i..<k])"
    using Suc.hyps(1) [OF d] lt Suc.prems by simp
  have up: "[i..<k] = i # [Suc i..<k]" using lt by (simp add: upt_conv_Cons)
  show ?case using step rest r by (simp add: up)
qed

lemma chain_reaches:
  assumes "k \<le> length sources" and "sources \<noteq> []" and "unavailable_before sources scopes k"
  shows "ChainedTokenCredential_GetToken sources scopes =
         try_from sources scopes k
           (map (\<lambda>j. failure_reason ((sources ! j) scopes)) [0..<k]) [0..<k]"
  using try_from_skip [of 0 k sources scopes "[]" "[]"] assms
  by (simp add: ChainedTokenCredential_GetToken_def unavailable_before_def)

text \<open>
  Claim C2: when the credential at position \<open>k\<close> succeeds and every credential before
  it returns \<open>CredentialUnavailable\<close>, the chain returns exactly the token of the
  credential at \<open>k\<close>, and the credentials it has invoked are those at \<open>0..k\<close>: none
  after \<open>k\<close>.
\<close>

theorem chain_returns_first_token:
  assumes "k < length sources"
    and "(sources ! k) scopes = Inr tok"
    and "unavailable_before sources scopes k"
  shows "ChainedTokenCredential_GetToken sources scopes = (Succeeded tok, [0..<Suc k])"
proof -
  from assms(1) have "sources \<noteq> []" by auto
  then show ?thesis
    using chain_reaches [of k sources scopes] assms
    by (simp add: try_from.simps [of sources scopes k])
qed

theorem chain_returns_first_token_witness:
  "Suc 0 < length unconfigured_then_working
   \<and> (unconfigured_then_working ! Suc 0) management_scope = Inr sample_token
   \<and> unavailable_before unconfigured_then_working management_scope (Suc 0)
   \<and> ChainedTokenCredential_GetToken unconfigured_then_working management_scope
       = (Succeeded sample_token, [0, Suc 0])"
proof -
  have len: "Suc 0 < length unconfigured_then_working"
    by (simp add: unconfigured_then_working_def)
  have tok: "(unconfigured_then_working ! Suc 0) management_scope = Inr sample_token"
    by (simp add: unconfigured_then_working_def working_credential_def)
  have ub: "unavailable_before unconfigured_then_working management_scope (Suc 0)"
    by (simp add: unavailable_before_def unconfigured_then_working_def
        unconfigured_credential_def)
  show ?thesis
    using len tok ub chain_returns_first_token [OF len tok ub]
    by simp
qed

end
